theory Spec2Isabelle
  imports Main "HOL-Library.Word" "HOL-Library.Sublist"
begin

section \<open>Python values and exceptions\<close>

text \<open>
  The configuration store of \<^verbatim>\<open>config.py\<close> is whatever \<^verbatim>\<open>tomllib.load\<close>
  returned: a dict from strings to strings, integers, floats, booleans, lists and
  further dicts. The resolver also meets \<^verbatim>\<open>None\<close>: it is the class-level default
  of \<^verbatim>\<open>_config_data\<close> and the result of \<^verbatim>\<open>dict.get\<close> on an absent key.
  A float is carried by its 64 bits, a dict by its items in order; \<open>map_of\<close>
  reads it, so of two items with one key the first is the dict's entry.
  TOML's dates and times are left out: like every scalar they have no \<^verbatim>\<open>get\<close>.
\<close>

datatype pyval =
    PyNone
  | PyStr string
  | PyInt int
  | PyFloat "64 word"
  | PyBool bool
  | PyList "pyval list"
  | PyDict "(string \<times> pyval) list"

text \<open>\<^verbatim>\<open>type(v).__name__\<close>, as Python's AttributeError reports it.\<close>

fun type_name :: "pyval \<Rightarrow> string" where
  "type_name PyNone = ''NoneType''"
| "type_name (PyStr s) = ''str''"
| "type_name (PyInt i) = ''int''"
| "type_name (PyFloat f) = ''float''"
| "type_name (PyBool b) = ''bool''"
| "type_name (PyList xs) = ''list''"
| "type_name (PyDict kvs) = ''dict''"

text \<open>
  The exceptions that can leave \<^verbatim>\<open>_get_data_value\<close>. The two classes of the module
  carry the message their \<^verbatim>\<open>__init__\<close> builds; \<open>AttributeError t a\<close> stands for
  "object of type t has no attribute a"; \<open>ValueError\<close> carries its message.
\<close>

datatype py_error =
    NotValidConfigDataPathException string
  | NotExistsInConfigException string
  | AttributeError string string
  | ValueError string

definition new_NotValidConfigDataPathException :: py_error where
  "new_NotValidConfigDataPathException =
     NotValidConfigDataPathException ''The data path for the loaded config is not valid.''"

definition new_NotExistsInConfigException :: "string \<Rightarrow> py_error" where
  "new_NotExistsInConfigException data_path =
     NotExistsInConfigException
       (''The config value searched at '' @ data_path @ '' does not exist.'')"

section \<open>The string and dict methods the resolver calls\<close>

text \<open>
  \<^verbatim>\<open>str.split(sep)\<close> for a string separator: the text is cut at every occurrence
  of \<open>sep\<close>, found from the left and not overlapping; an empty separator raises
  ValueError. \<open>split_from sep cur s\<close> has read the piece \<open>cur\<close> and still has
  \<open>s\<close> before it.
\<close>

function split_from :: "string \<Rightarrow> string \<Rightarrow> string \<Rightarrow> string list" where
  "split_from sep cur [] = [cur]"
| "split_from sep cur (c # cs) =
     (if sep \<noteq> [] \<and> prefix sep (c # cs)
      then cur # split_from sep [] (drop (length sep) (c # cs))
      else split_from sep (cur @ [c]) cs)"
  by pat_completeness auto
termination
  by (relation "measure (\<lambda>(sep, cur, s). length s)") auto

definition str_split :: "string \<Rightarrow> string \<Rightarrow> py_error + string list" where
  "str_split s sep =
     (if sep = [] then Inl (ValueError ''empty separator'')
      else Inr (split_from sep [] s))"

text \<open>
  \<^verbatim>\<open>data.get(path)\<close>: on a dict the entry, or \<^verbatim>\<open>None\<close> when the key is absent;
  no other value of the store has a \<^verbatim>\<open>get\<close> attribute.
\<close>

fun py_get :: "pyval \<Rightarrow> string \<Rightarrow> py_error + pyval" where
  "py_get (PyDict kvs) k = Inr (case map_of kvs k of None \<Rightarrow> PyNone | Some v \<Rightarrow> v)"
| "py_get v k = Inl (AttributeError (type_name v) ''get'')"

text \<open>
  \<^verbatim>\<open>data_path == []\<close> compares a \<^verbatim>\<open>str\<close> with a \<^verbatim>\<open>list\<close>: Python answers
  False for every string, the empty one too. (In HOL a string is a list of
  characters, so the comparison is written out rather than as \<open>data_path = []\<close>,
  which would test for the empty string.) Likewise a \<^verbatim>\<open>str\<close> is never \<^verbatim>\<open>None\<close>.
\<close>

definition str_is_None :: "string \<Rightarrow> bool" where
  "str_is_None s = False"

definition str_eq_empty_list :: "string \<Rightarrow> bool" where
  "str_eq_empty_list s = False"

section \<open>The config object\<close>

record MeloDConfig =
  config_data :: pyval

text \<open>
  A method of the class is a function of the object that returns what the call returns or raises,
  and the object after the call.
\<close>

type_synonym 'a py_method = "MeloDConfig \<Rightarrow> (py_error + 'a) \<times> MeloDConfig"

definition returning :: "'a \<Rightarrow> 'a py_method" where
  "returning a = (\<lambda>self. (Inr a, self))"

definition and_then :: "'a py_method \<Rightarrow> ('a \<Rightarrow> 'b py_method) \<Rightarrow> 'b py_method" where
  "and_then m f =
     (\<lambda>self. case m self of (Inl e, self') \<Rightarrow> (Inl e, self') | (Inr a, self') \<Rightarrow> f a self')"

text \<open>
  \<^verbatim>\<open>__init__\<close> binds a local name to the empty dict and returns; the attribute
  \<^verbatim>\<open>_config_data\<close> of the new object is still the class-level \<^verbatim>\<open>None\<close>.
  Both subclasses only call it.
\<close>

definition class_config_data :: pyval where
  "class_config_data = PyNone"

definition MeloDConfig_init :: MeloDConfig where
  "MeloDConfig_init = (let local_config_data = PyDict [] in \<lparr>config_data = class_config_data\<rparr>)"

definition ProjectConfig_init :: MeloDConfig where
  "ProjectConfig_init = MeloDConfig_init"

definition SongConfig_init :: MeloDConfig where
  "SongConfig_init = MeloDConfig_init"

section \<open>The path resolver\<close>

text \<open>
  The loop of \<^verbatim>\<open>_get_data_value\<close>: \<open>data\<close> is the value reached so far, the
  list holds the segments still to walk, \<open>data_path\<close> is the caller's string.
\<close>

fun walk :: "pyval \<Rightarrow> string list \<Rightarrow> string \<Rightarrow> py_error + pyval" where
  "walk data [] data_path = Inr data"
| "walk data (path # rest) data_path =
     (case py_get data path of
        Inl e \<Rightarrow> Inl e
      | Inr data' \<Rightarrow>
          if data' = PyNone then Inl (new_NotExistsInConfigException data_path)
          else walk data' rest data_path)"

definition get_data_value :: "string \<Rightarrow> string \<Rightarrow> pyval py_method" where
  "get_data_value data_path sep self =
     (case str_split data_path sep of
        Inl e \<Rightarrow> (Inl e, self)
      | Inr data_path_array \<Rightarrow>
          if str_is_None data_path \<or> str_eq_empty_list data_path
          then (Inl new_NotValidConfigDataPathException, self)
          else (walk (config_data self) data_path_array data_path, self))"

section \<open>The typed accessors\<close>

text \<open>
  Each accessor builds its tuple left to right with the default separator; the
  first call that raises ends it.
\<close>

definition get_printer_angles_per_step :: "(pyval \<times> pyval \<times> pyval) py_method" where
  "get_printer_angles_per_step =
     and_then (get_data_value ''printer/x_ang'' ''/'') (\<lambda>x.
     and_then (get_data_value ''printer/y_ang'' ''/'') (\<lambda>y.
     and_then (get_data_value ''printer/z_ang'' ''/'') (\<lambda>z.
     returning (x, y, z))))"

definition get_printer_rot_distance_per_rev :: "(pyval \<times> pyval \<times> pyval) py_method" where
  "get_printer_rot_distance_per_rev =
     and_then (get_data_value ''printer/x_rpr'' ''/'') (\<lambda>x.
     and_then (get_data_value ''printer/y_rpr'' ''/'') (\<lambda>y.
     and_then (get_data_value ''printer/z_rpr'' ''/'') (\<lambda>z.
     returning (x, y, z))))"

definition get_printer_dimensions :: "(pyval \<times> pyval \<times> pyval) py_method" where
  "get_printer_dimensions =
     and_then (get_data_value ''printer/x_dim'' ''/'') (\<lambda>x.
     and_then (get_data_value ''printer/y_dim'' ''/'') (\<lambda>y.
     and_then (get_data_value ''printer/z_dim'' ''/'') (\<lambda>z.
     returning (x, y, z))))"

definition get_song_config_path :: "pyval py_method" where
  "get_song_config_path = get_data_value ''song/config_filepath'' ''/''"

definition get_song_properties :: "(pyval \<times> pyval) py_method" where
  "get_song_properties =
     and_then (get_data_value ''song_name'' ''/'') (\<lambda>n.
     and_then (get_data_value ''song_directory'' ''/'') (\<lambda>d.
     returning (n, d)))"

definition get_song_tempo :: "pyval py_method" where
  "get_song_tempo = get_data_value ''tempo'' ''/''"

definition get_song_octaves_adjustment :: "(pyval \<times> pyval \<times> pyval) py_method" where
  "get_song_octaves_adjustment =
     and_then (get_data_value ''x_octave_adj'' ''/'') (\<lambda>x.
     and_then (get_data_value ''y_octave_adj'' ''/'') (\<lambda>y.
     and_then (get_data_value ''z_octave_adj'' ''/'') (\<lambda>z.
     returning (x, y, z))))"

section \<open>The loader\<close>

text \<open>
  What \<^verbatim>\<open>could_load_file\<close> asks of the world outside the module, each call either
  returning or raising an instance of \<^verbatim>\<open>Exception\<close>: \<^verbatim>\<open>os.path.abspath\<close>,
  \<^verbatim>\<open>open(full_path, "rb")\<close> (the file is given by its bytes),
  \<^verbatim>\<open>tomllib.load\<close>, which returns a dict, the close of the file that leaving the
  \<^verbatim>\<open>with\<close> block runs, and \<^verbatim>\<open>print\<close>. \<open>OtherException\<close> carries
  \<^verbatim>\<open>str(e)\<close> of any exception that is neither of the first two. For the close and
  for \<^verbatim>\<open>print\<close>, \<open>None\<close> says that the call returned and \<open>Some e\<close> that it
  raised \<open>e\<close>.
\<close>

datatype exn = TOMLDecodeError | FileNotFoundError | OtherException string

record world =
  abspath :: "string \<Rightarrow> exn + string"
  open_rb :: "string \<Rightarrow> exn + string"
  tomllib_load :: "string \<Rightarrow> exn + (string \<times> pyval) list"
  close_file :: "string \<Rightarrow> exn option"
  print_line :: "string \<Rightarrow> exn option"

text \<open>
  Leaving the \<^verbatim>\<open>with\<close> block closes the file, whether the block returned or
  raised; an exception of the close is the one that goes on.
\<close>

definition with_exit :: "world \<Rightarrow> string \<Rightarrow> (exn + bool) \<Rightarrow> (exn + bool)" where
  "with_exit w full_path r = (case close_file w full_path of Some e \<Rightarrow> Inl e | None \<Rightarrow> r)"

text \<open>
  The body of the \<^verbatim>\<open>try\<close>: the store is assigned once the parser has returned,
  then the file is closed, then True is returned.
\<close>

definition load_attempt :: "world \<Rightarrow> string \<Rightarrow> MeloDConfig \<Rightarrow> (exn + bool) \<times> MeloDConfig" where
  "load_attempt w filepath self =
     (case abspath w filepath of
        Inl e \<Rightarrow> (Inl e, self)
      | Inr full_path \<Rightarrow>
          (case open_rb w full_path of
             Inl e \<Rightarrow> (Inl e, self)
           | Inr config_file \<Rightarrow>
               (case tomllib_load w config_file of
                  Inl e \<Rightarrow> (with_exit w full_path (Inl e), self)
                | Inr parsed \<Rightarrow>
                    (with_exit w full_path (Inr True), self\<lparr>config_data := PyDict parsed\<rparr>))))"

definition msg_filepath_required :: string where
  "msg_filepath_required = ''A config filepath is required in order to load its information.''"

definition msg_format_error :: string where
  "msg_format_error =
     ''The config file could not be loaded due to a format  error.'' @ [CHR 0x0A, CHR 0x09]
       @ ''Check the file format and try again.''"

definition msg_not_found :: string where
  "msg_not_found = ''The config file could not be found.''"

definition msg_other :: "string \<Rightarrow> string" where
  "msg_other e = ''Something went wrong: '' @ e"

text \<open>
  A call ends by returning a boolean (\<open>Inr\<close>) or by raising (\<open>Inl\<close>); with it come
  the lines printed and the object after the call.
  \<^verbatim>\<open>print(msg); return False\<close>: when \<^verbatim>\<open>print\<close> raises, its exception leaves
  the function, also from inside an \<^verbatim>\<open>except\<close> block.
\<close>

definition print_return_False ::
    "world \<Rightarrow> string \<Rightarrow> MeloDConfig \<Rightarrow> (exn + bool) \<times> string list \<times> MeloDConfig" where
  "print_return_False w msg self =
     (case print_line w msg of
        Some e \<Rightarrow> (Inl e, [], self)
      | None \<Rightarrow> (Inr False, [msg], self))"

text \<open>The file path is \<^verbatim>\<open>None\<close> or a string.\<close>

definition could_load_file ::
    "world \<Rightarrow> string option \<Rightarrow> MeloDConfig \<Rightarrow> (exn + bool) \<times> string list \<times> MeloDConfig" where
  "could_load_file w filepath self =
     (case filepath of
        None \<Rightarrow> print_return_False w msg_filepath_required self
      | Some fp \<Rightarrow>
          if fp = [] then print_return_False w msg_filepath_required self
          else
            (case load_attempt w fp self of
               (Inr b, self') \<Rightarrow> (Inr b, [], self')
             | (Inl TOMLDecodeError, self') \<Rightarrow> print_return_False w msg_format_error self'
             | (Inl FileNotFoundError, self') \<Rightarrow> print_return_False w msg_not_found self'
             | (Inl (OtherException e), self') \<Rightarrow> print_return_False w (msg_other e) self'))"

text \<open>
  The failures the loader meets before the store is assigned: no file path, or an
  exception of \<^verbatim>\<open>abspath\<close>, of \<^verbatim>\<open>open\<close> or of the parser.
\<close>

definition fails_before_store :: "world \<Rightarrow> string option \<Rightarrow> bool" where
  "fails_before_store w filepath =
     (case filepath of
        None \<Rightarrow> True
      | Some fp \<Rightarrow>
          fp = [] \<or>
          (case abspath w fp of
             Inl e \<Rightarrow> True
           | Inr full_path \<Rightarrow>
               (case open_rb w full_path of
                  Inl e \<Rightarrow> True
                | Inr config_file \<Rightarrow>
                    (case tomllib_load w config_file of Inl e \<Rightarrow> True | Inr parsed \<Rightarrow> False))))"

section \<open>What a path names in a store\<close>

text \<open>
  The entry a sequence of segments names when walked from a value, in the words of
  the specification: every segment is a key of the mapping reached so far and its
  entry is not \<^verbatim>\<open>None\<close>. \<open>None\<close> says that the segments name no such entry.
\<close>

fun stored_at :: "pyval \<Rightarrow> string list \<Rightarrow> pyval option" where
  "stored_at v [] = Some v"
| "stored_at (PyDict kvs) (k # ks) =
     (case map_of kvs k of
        None \<Rightarrow> None
      | Some v \<Rightarrow> if v = PyNone then None else stored_at v ks)"
| "stored_at v (k # ks) = None"

fun is_mapping :: "pyval \<Rightarrow> bool" where
  "is_mapping (PyDict kvs) = True"
| "is_mapping v = False"

section \<open>A project file and a file system holding it\<close>

text \<open>
  The project file \<^verbatim>\<open>project.toml\<close> with the three dimensions 200.0, 210.0 and
  180.0 (as IEEE doubles), what the parser makes of it, and a world where it lies
  beside a truncated file and an unreadable one, and where closing a file and
  printing succeed. In \<open>stuck_world\<close> closing a file raises OSError, in
  \<open>mute_world\<close> the standard output is closed and \<^verbatim>\<open>print\<close> raises ValueError.
\<close>

definition sample_text :: string where
  "sample_text = ''printer = {x_dim = 200.0, y_dim = 210.0, z_dim = 180.0}''"

definition sample_printer :: "(string \<times> pyval) list" where
  "sample_printer =
     [(''x_dim'', PyFloat 0x4069000000000000),
      (''y_dim'', PyFloat 0x406A400000000000),
      (''z_dim'', PyFloat 0x4066800000000000)]"

definition sample_items :: "(string \<times> pyval) list" where
  "sample_items = [(''printer'', PyDict sample_printer)]"

definition sample_store :: MeloDConfig where
  "sample_store = \<lparr>config_data = PyDict sample_items\<rparr>"

definition sample_world :: world where
  "sample_world =
     \<lparr>abspath = (\<lambda>p. Inr (''/melod/'' @ p)),
      open_rb = (\<lambda>p. if p = ''/melod/project.toml'' then Inr sample_text
                      else if p = ''/melod/broken.toml'' then Inr ''printer = {''
                      else if p = ''/melod/locked.toml''
                        then Inl (OtherException
                               (''[Errno 13] Permission denied: '' @ [CHR 0x27]
                                  @ ''/melod/locked.toml'' @ [CHR 0x27]))
                      else Inl FileNotFoundError),
      tomllib_load = (\<lambda>b. if b = sample_text then Inr sample_items else Inl TOMLDecodeError),
      close_file = (\<lambda>p. None),
      print_line = (\<lambda>msg. None)\<rparr>"

definition stuck_world :: world where
  "stuck_world =
     sample_world\<lparr>close_file := (\<lambda>p. Some (OtherException ''[Errno 5] Input/output error''))\<rparr>"

definition mute_world :: world where
  "mute_world =
     sample_world\<lparr>print_line := (\<lambda>msg. Some (OtherException ''I/O operation on closed file.''))\<rparr>"

section \<open>The resolver on paths that name an entry\<close>

lemma walk_stored_at:
  "stored_at data segs = Some v \<Longrightarrow> walk data segs data_path = Inr v"
proof (induction data segs arbitrary: v rule: stored_at.induct)
  case (2 kvs k ks)
  then show ?case by (auto split: option.splits if_splits)
qed simp_all

lemma walk_append:
  "stored_at data pre = Some mid \<Longrightarrow>
     walk data (pre @ rest) data_path = walk mid rest data_path"
proof (induction data pre arbitrary: mid rule: stored_at.induct)
  case (2 kvs k ks)
  then show ?case by (auto split: option.splits if_splits)
qed simp_all

lemma sample_split:
  "str_split ''printer/x_dim'' ''/'' = Inr [''printer'', ''x_dim'']"
  "str_split ''printer/y_dim'' ''/'' = Inr [''printer'', ''y_dim'']"
  "str_split ''printer/z_dim'' ''/'' = Inr [''printer'', ''z_dim'']"
  "str_split ''printer/w_dim/unit'' ''/'' = Inr [''printer'', ''w_dim'', ''unit'']"
  "str_split ''printer/x_dim/unit'' ''/'' = Inr [''printer'', ''x_dim'', ''unit'']"
  by (simp_all add: str_split_def)

text \<open>
  C1. When the segments of \<open>data_path\<close>, split on \<open>sep\<close>, each name an existing
  entry that is not \<^verbatim>\<open>None\<close> as they are walked from the root of the store,
  \<^verbatim>\<open>_get_data_value\<close> returns the very value stored at the last of them, whatever
  its kind, and the object is as before.
\<close>

theorem resolve_existing_path:
  assumes "str_split data_path sep = Inr segs"
    and "stored_at (config_data self) segs = Some v"
  shows "get_data_value data_path sep self = (Inr v, self)"
  using assms
  by (simp add: get_data_value_def str_is_None_def str_eq_empty_list_def walk_stored_at)

theorem resolve_existing_path_witness:
  "str_split ''printer/x_dim'' ''/'' = Inr [''printer'', ''x_dim'']
   \<and> stored_at (config_data sample_store) [''printer'', ''x_dim'']
       = Some (PyFloat 0x4069000000000000)
   \<and> get_data_value ''printer/x_dim'' ''/'' sample_store
       = (Inr (PyFloat 0x4069000000000000), sample_store)"
proof -
  have s: "stored_at (config_data sample_store) [''printer'', ''x_dim'']
             = Some (PyFloat 0x4069000000000000)"
    by (simp add: sample_store_def sample_items_def sample_printer_def)
  from resolve_existing_path [OF sample_split(1) s] sample_split(1) s
  show ?thesis by simp
qed

section \<open>The resolver on the empty path\<close>

text \<open>
  The check for an invalid path never fires on a string, so no call of the resolver
  ends in \<^verbatim>\<open>NotValidConfigDataPathException\<close>.
\<close>

lemma walk_never_not_valid:
  "walk data segs data_path \<noteq> Inl (NotValidConfigDataPathException m)"
proof (induction segs arbitrary: data)
  case Nil
  show ?case by simp
next
  case (Cons seg segs)
  show ?case
  proof (cases data)
    case (PyDict kvs)
    with Cons show ?thesis
      by (simp add: new_NotExistsInConfigException_def split: option.splits)
  qed simp_all
qed

lemma never_not_valid:
  "fst (get_data_value data_path sep self) \<noteq> Inl (NotValidConfigDataPathException m)"
  by (simp add: get_data_value_def str_split_def str_is_None_def str_eq_empty_list_def
      walk_never_not_valid)

text \<open>
  C2. The claim is that the empty path raises \<^verbatim>\<open>NotValidConfigDataPathException\<close>
  whatever the store holds. The code splits \<^verbatim>\<open>""\<close> into the one segment \<^verbatim>\<open>""\<close>
  and looks it up: on the empty store the call raises
  \<^verbatim>\<open>NotExistsInConfigException\<close>, and on a store with the key \<^verbatim>\<open>""\<close> it returns
  that entry.
\<close>

theorem empty_path_not_invalid:
  "get_data_value '''' ''/'' \<lparr>config_data = PyDict []\<rparr>
     = (Inl (NotExistsInConfigException ''The config value searched at  does not exist.''),
        \<lparr>config_data = PyDict []\<rparr>)
   \<and> get_data_value '''' ''/'' \<lparr>config_data = PyDict [('''', PyInt 1)]\<rparr>
     = (Inr (PyInt 1), \<lparr>config_data = PyDict [('''', PyInt 1)]\<rparr>)"
  by (simp add: get_data_value_def str_split_def str_is_None_def str_eq_empty_list_def
      new_NotExistsInConfigException_def)

section \<open>The resolver on paths that leave the store\<close>

lemma walk_absent:
  "map_of cur seg = None \<or> map_of cur seg = Some PyNone \<Longrightarrow>
     walk (PyDict cur) (seg # rest) data_path = Inl (new_NotExistsInConfigException data_path)"
  by auto

text \<open>
  C3. On a loaded store and a non-empty path: when the walk has reached a mapping
  \<open>cur\<close> through the segments \<open>pre\<close> and the next segment \<open>seg\<close> is no key of
  \<open>cur\<close>, or its entry is \<^verbatim>\<open>None\<close>, the call raises
  \<^verbatim>\<open>NotExistsInConfigException\<close> there, whatever segments \<open>rest\<close> follow, and
  the message holds the whole of \<open>data_path\<close>.
\<close>

theorem missing_segment_not_exists:
  assumes "config_data self = PyDict root"
    and "data_path \<noteq> []"
    and "str_split data_path sep = Inr (pre @ seg # rest)"
    and "stored_at (config_data self) pre = Some (PyDict cur)"
    and "map_of cur seg = None \<or> map_of cur seg = Some PyNone"
  shows "get_data_value data_path sep self =
           (Inl (NotExistsInConfigException
                  (''The config value searched at '' @ data_path @ '' does not exist.'')),
            self)"
proof -
  have "walk (config_data self) (pre @ seg # rest) data_path
          = walk (PyDict cur) (seg # rest) data_path"
    using assms(4) by (rule walk_append)
  also have "\<dots> = Inl (new_NotExistsInConfigException data_path)"
    using assms(5) by (rule walk_absent)
  finally show ?thesis
    using assms(3)
    by (simp add: get_data_value_def str_is_None_def str_eq_empty_list_def
        new_NotExistsInConfigException_def)
qed

theorem missing_segment_not_exists_witness:
  "config_data sample_store = PyDict sample_items
   \<and> ''printer/w_dim/unit'' \<noteq> []
   \<and> str_split ''printer/w_dim/unit'' ''/'' = Inr ([''printer''] @ ''w_dim'' # [''unit''])
   \<and> stored_at (config_data sample_store) [''printer''] = Some (PyDict sample_printer)
   \<and> map_of sample_printer ''w_dim'' = None
   \<and> get_data_value ''printer/w_dim/unit'' ''/'' sample_store
       = (Inl (NotExistsInConfigException
                ''The config value searched at printer/w_dim/unit does not exist.''),
          sample_store)"
proof -
  have 1: "config_data sample_store = PyDict sample_items"
    by (simp add: sample_store_def)
  have 2: "''printer/w_dim/unit'' \<noteq> []"
    by simp
  have 3: "str_split ''printer/w_dim/unit'' ''/'' = Inr ([''printer''] @ ''w_dim'' # [''unit''])"
    by (simp add: sample_split)
  have 4: "stored_at (config_data sample_store) [''printer''] = Some (PyDict sample_printer)"
    by (simp add: sample_store_def sample_items_def)
  have 5: "map_of sample_printer ''w_dim'' = None"
    by (simp add: sample_printer_def)
  have 6: "map_of sample_printer ''w_dim'' = None \<or> map_of sample_printer ''w_dim'' = Some PyNone"
    using 5 by simp
  from missing_segment_not_exists [OF 1 2 3 4 6] 1 2 3 4 5
  show ?thesis by simp
qed

text \<open>
  A segment asked of a value that is not a mapping: \<^verbatim>\<open>data.get\<close> is an attribute
  lookup on that value, and it raises AttributeError naming the value's type.
\<close>

lemma walk_non_mapping:
  "\<not> is_mapping v \<Longrightarrow> walk v (seg # rest) data_path = Inl (AttributeError (type_name v) ''get'')"
  by (cases v) simp_all

lemma descend_non_mapping:
  assumes "str_split data_path sep = Inr (pre @ seg # rest)"
    and "stored_at (config_data self) pre = Some v"
    and "\<not> is_mapping v"
  shows "get_data_value data_path sep self = (Inl (AttributeError (type_name v) ''get''), self)"
proof -
  have "walk (config_data self) (pre @ seg # rest) data_path = walk v (seg # rest) data_path"
    using assms(2) by (rule walk_append)
  also have "\<dots> = Inl (AttributeError (type_name v) ''get'')"
    using assms(3) by (rule walk_non_mapping)
  finally show ?thesis
    using assms(1)
    by (simp add: get_data_value_def str_is_None_def str_eq_empty_list_def)
qed

lemma descend_non_mapping_witness:
  "\<not> is_mapping (PyFloat 0x4069000000000000)
   \<and> get_data_value ''printer/x_dim/unit'' ''/'' sample_store
       = (Inl (AttributeError ''float'' ''get''), sample_store)"
proof -
  have 1: "str_split ''printer/x_dim/unit'' ''/'' = Inr ([''printer'', ''x_dim''] @ ''unit'' # [])"
    by (simp add: sample_split)
  have 2: "stored_at (config_data sample_store) [''printer'', ''x_dim'']
             = Some (PyFloat 0x4069000000000000)"
    by (simp add: sample_store_def sample_items_def sample_printer_def)
  have 3: "\<not> is_mapping (PyFloat 0x4069000000000000)"
    by simp
  from descend_non_mapping [OF 1 2 3] 3 show ?thesis by simp
qed

text \<open>
  C4. The claim is that a path which goes on after a value that is no mapping raises
  \<^verbatim>\<open>NotExistsInConfigException\<close>. On the store \<^verbatim>\<open>{"printer": {"x_dim": 200}}\<close>
  the path \<^verbatim>\<open>printer/x_dim/unit\<close> reaches the integer 200 and then asks it for
  \<^verbatim>\<open>get\<close>: the call raises AttributeError.
\<close>

theorem descend_into_scalar:
  "get_data_value ''printer/x_dim/unit'' ''/''
       \<lparr>config_data = PyDict [(''printer'', PyDict [(''x_dim'', PyInt 200)])]\<rparr>
     = (Inl (AttributeError ''int'' ''get''),
        \<lparr>config_data = PyDict [(''printer'', PyDict [(''x_dim'', PyInt 200)])]\<rparr>)"
  by (simp add: get_data_value_def sample_split str_is_None_def str_eq_empty_list_def)

section \<open>The resolver and the accessors only read\<close>





section \<open>The object before any load\<close>

lemma split_from_not_Nil: "split_from sep cur s \<noteq> []"
  by (induction sep cur s rule: split_from.induct) auto

lemma unloaded_get:
  assumes "sep \<noteq> []"
  shows "get_data_value data_path sep MeloDConfig_init
           = (Inl (AttributeError ''NoneType'' ''get''), MeloDConfig_init)"
proof -
  obtain seg rest where "split_from sep [] data_path = seg # rest"
    using split_from_not_Nil [of sep "[]" data_path]
    by (cases "split_from sep [] data_path") auto
  with assms show ?thesis
    by (simp add: get_data_value_def str_split_def str_is_None_def str_eq_empty_list_def
        MeloDConfig_init_def class_config_data_def)
qed

lemma accessors_raise:
  assumes "\<And>p. get_data_value p ''/'' s = (Inl e, s)"
  shows "get_printer_angles_per_step s = (Inl e, s)"
    and "get_printer_rot_distance_per_rev s = (Inl e, s)"
    and "get_printer_dimensions s = (Inl e, s)"
    and "get_song_config_path s = (Inl e, s)"
    and "get_song_properties s = (Inl e, s)"
    and "get_song_tempo s = (Inl e, s)"
    and "get_song_octaves_adjustment s = (Inl e, s)"
  by (simp_all add: get_printer_angles_per_step_def get_printer_rot_distance_per_rev_def
      get_printer_dimensions_def get_song_config_path_def get_song_properties_def
      get_song_tempo_def get_song_octaves_adjustment_def and_then_def assms)

text \<open>
  C10, as the claim states it, fails for the empty separator: \<^verbatim>\<open>split\<close> raises
  ValueError before the store is looked at, so the call does not end in an
  attribute error.
\<close>

theorem unloaded_empty_separator:
  "get_data_value ''printer/x_dim'' '''' MeloDConfig_init
     = (Inl (ValueError ''empty separator''), \<lparr>config_data = PyNone\<rparr>)
   \<and> fst (get_data_value ''printer/x_dim'' '''' MeloDConfig_init)
     \<noteq> Inl (AttributeError ''NoneType'' ''get'')"
  by (simp add: get_data_value_def str_split_def MeloDConfig_init_def class_config_data_def)

text \<open>
  C10, amended. A freshly constructed object still has \<^verbatim>\<open>_config_data\<close> equal to
  \<^verbatim>\<open>None\<close>. On it every resolver call with a non-empty separator, and every
  accessor, raises AttributeError (\<^verbatim>\<open>None\<close> has no \<^verbatim>\<open>get\<close>); a resolver
  call with the empty separator raises ValueError. None of them raises one of the
  module's two exceptions.
\<close>

theorem unloaded_object_fails:
  "config_data MeloDConfig_init = PyNone
   \<and> (sep \<noteq> [] \<longrightarrow>
        get_data_value data_path sep MeloDConfig_init
          = (Inl (AttributeError ''NoneType'' ''get''), MeloDConfig_init))
   \<and> get_data_value data_path [] MeloDConfig_init
       = (Inl (ValueError ''empty separator''), MeloDConfig_init)
   \<and> get_printer_angles_per_step ProjectConfig_init
       = (Inl (AttributeError ''NoneType'' ''get''), ProjectConfig_init)
   \<and> get_printer_rot_distance_per_rev ProjectConfig_init
       = (Inl (AttributeError ''NoneType'' ''get''), ProjectConfig_init)
   \<and> get_printer_dimensions ProjectConfig_init
       = (Inl (AttributeError ''NoneType'' ''get''), ProjectConfig_init)
   \<and> get_song_config_path ProjectConfig_init
       = (Inl (AttributeError ''NoneType'' ''get''), ProjectConfig_init)
   \<and> get_song_properties SongConfig_init
       = (Inl (AttributeError ''NoneType'' ''get''), SongConfig_init)
   \<and> get_song_tempo SongConfig_init
       = (Inl (AttributeError ''NoneType'' ''get''), SongConfig_init)
   \<and> get_song_octaves_adjustment SongConfig_init
       = (Inl (AttributeError ''NoneType'' ''get''), SongConfig_init)"
proof -
  have g: "\<And>p. get_data_value p ''/'' MeloDConfig_init
             = (Inl (AttributeError ''NoneType'' ''get''), MeloDConfig_init)"
    by (rule unloaded_get) simp
  have e: "get_data_value data_path [] MeloDConfig_init
       = (Inl (ValueError ''empty separator''), MeloDConfig_init)"
    by (simp add: get_data_value_def str_split_def)
  have n: "config_data MeloDConfig_init = PyNone"
    by (simp add: MeloDConfig_init_def class_config_data_def)
  show ?thesis
    unfolding ProjectConfig_init_def SongConfig_init_def
    using n e unloaded_get [of sep data_path] accessors_raise [OF g]
    by (intro conjI impI) assumption+
qed

theorem unloaded_object_fails_witness:
  "''/'' \<noteq> []
   \<and> get_data_value ''tempo'' ''/'' MeloDConfig_init
       = (Inl (AttributeError ''NoneType'' ''get''), MeloDConfig_init)"
  using unloaded_object_fails [of "''/''" "''tempo''"] by simp

section \<open>What the loader returns and what it changes\<close>

lemma print_return_False_object:
  "snd (snd (print_return_False w msg self)) = self"
  by (simp add: print_return_False_def split: option.splits)

lemma print_return_False_not_True:
  "fst (print_return_False w msg self) \<noteq> Inr True"
  by (simp add: print_return_False_def split: option.splits)

lemma print_return_False_quiet:
  "print_line w msg = None \<Longrightarrow> print_return_False w msg self = (Inr False, [msg], self)"
  by (simp add: print_return_False_def)

lemma load_attempt_True:
  "fst (load_attempt w fp self) = Inr b \<Longrightarrow> b"
  by (auto simp: load_attempt_def with_exit_def split: sum.splits option.splits)

lemma load_attempt_steps:
  assumes "abspath w fp = Inr full_path"
    and "open_rb w full_path = Inr config_file"
    and "tomllib_load w config_file = Inr parsed"
  shows "load_attempt w fp self
           = (with_exit w full_path (Inr True), self\<lparr>config_data := PyDict parsed\<rparr>)"
  using assms by (simp add: load_attempt_def)

lemma load_attempt_fails_before_store:
  assumes "fails_before_store w (Some fp)" and "fp \<noteq> []"
  shows "snd (load_attempt w fp self) = self \<and> (\<exists>e. fst (load_attempt w fp self) = Inl e)"
  using assms
  by (auto simp: fails_before_store_def load_attempt_def with_exit_def
      split: sum.splits option.splits)

lemma not_fails_before_store:
  assumes "\<not> fails_before_store w filepath"
  shows "\<exists>fp full_path config_file parsed.
           filepath = Some fp \<and> fp \<noteq> [] \<and> abspath w fp = Inr full_path \<and>
           open_rb w full_path = Inr config_file \<and> tomllib_load w config_file = Inr parsed"
  using assms
  by (auto simp: fails_before_store_def split: option.splits sum.splits)

text \<open>A failure before the assignment: the object is as before and True is not returned.\<close>

lemma could_load_file_fails_before_store:
  assumes "fails_before_store w filepath"
  shows "snd (snd (could_load_file w filepath self)) = self
         \<and> fst (could_load_file w filepath self) \<noteq> Inr True"
proof (cases filepath)
  case None
  then show ?thesis
    by (simp add: could_load_file_def print_return_False_object print_return_False_not_True)
next
  case (Some fp)
  show ?thesis
  proof (cases "fp = []")
    case True
    with Some show ?thesis
      by (simp add: could_load_file_def print_return_False_object print_return_False_not_True)
  next
    case False
    from load_attempt_fails_before_store [of w fp self] assms Some False
    obtain e where "load_attempt w fp self = (Inl e, self)"
      by (cases "load_attempt w fp self") auto
    with Some False show ?thesis
      by (cases e)
         (simp_all add: could_load_file_def print_return_False_object print_return_False_not_True)
  qed
qed

text \<open>After a parse that returned: what the close decides.\<close>

lemma could_load_file_parsed:
  assumes "fp \<noteq> []"
    and "abspath w fp = Inr full_path"
    and "open_rb w full_path = Inr config_file"
    and "tomllib_load w config_file = Inr parsed"
  shows "snd (snd (could_load_file w (Some fp) self)) = self\<lparr>config_data := PyDict parsed\<rparr>"
    and "close_file w full_path = None \<Longrightarrow>
           could_load_file w (Some fp) self
             = (Inr True, [], self\<lparr>config_data := PyDict parsed\<rparr>)"
    and "close_file w full_path = Some e \<Longrightarrow>
           fst (could_load_file w (Some fp) self) \<noteq> Inr True"
proof -
  note la = load_attempt_steps [OF assms(2-4), of self]
  show "snd (snd (could_load_file w (Some fp) self)) = self\<lparr>config_data := PyDict parsed\<rparr>"
    using assms(1) la
    by (cases "close_file w full_path")
       (simp_all add: could_load_file_def with_exit_def print_return_False_object
          split: exn.splits)
  show "could_load_file w (Some fp) self = (Inr True, [], self\<lparr>config_data := PyDict parsed\<rparr>)"
    if "close_file w full_path = None"
    using assms(1) la that by (simp add: could_load_file_def with_exit_def)
  show "fst (could_load_file w (Some fp) self) \<noteq> Inr True"
    if "close_file w full_path = Some e"
    using assms(1) la that
    by (simp add: could_load_file_def with_exit_def print_return_False_not_True
        split: exn.splits)
qed

lemma could_load_file_True:
  assumes "fst (could_load_file w filepath self) = Inr True"
  shows "\<exists>fp full_path config_file parsed.
           filepath = Some fp \<and> fp \<noteq> [] \<and> abspath w fp = Inr full_path \<and>
           open_rb w full_path = Inr config_file \<and> tomllib_load w config_file = Inr parsed \<and>
           close_file w full_path = None \<and>
           could_load_file w filepath self
             = (Inr True, [], self\<lparr>config_data := PyDict parsed\<rparr>)"
proof -
  have "\<not> fails_before_store w filepath"
    using assms could_load_file_fails_before_store [of w filepath self] by auto
  from not_fails_before_store [OF this]
  obtain fp full_path config_file parsed where
    s: "filepath = Some fp" "fp \<noteq> []" "abspath w fp = Inr full_path"
      "open_rb w full_path = Inr config_file" "tomllib_load w config_file = Inr parsed"
    by blast
  have c: "close_file w full_path = None"
  proof (cases "close_file w full_path")
    case (Some e)
    from could_load_file_parsed(3) [OF s(2-5) Some] assms s(1) show ?thesis by simp
  qed simp
  from could_load_file_parsed(2) [OF s(2-5) c] s c show ?thesis by blast
qed

lemma could_load_file_quiet:
  assumes "\<forall>msg. print_line w msg = None"
  shows "\<exists>b. fst (could_load_file w filepath self) = Inr b"
proof (cases filepath)
  case None
  with assms show ?thesis
    by (auto simp: could_load_file_def print_return_False_quiet)
next
  case (Some fp)
  obtain r s where "load_attempt w fp self = (r, s)"
    by (cases "load_attempt w fp self")
  with Some assms show ?thesis
    by (auto simp: could_load_file_def print_return_False_quiet split: sum.splits exn.splits)
qed

lemma sample_world_project:
  "abspath sample_world ''project.toml'' = Inr ''/melod/project.toml''"
  "open_rb sample_world ''/melod/project.toml'' = Inr sample_text"
  "tomllib_load sample_world sample_text = Inr sample_items"
  "close_file sample_world ''/melod/project.toml'' = None"
  by (simp_all add: sample_world_def)

lemma sample_world_quiet: "\<forall>msg. print_line sample_world msg = None"
  by (simp add: sample_world_def)

lemma sample_world_loads:
  "could_load_file sample_world (Some ''project.toml'') self = (Inr True, [], sample_store)"
  by (simp add: could_load_file_def load_attempt_def with_exit_def sample_world_project
      sample_store_def)

lemma sample_world_fails:
  "could_load_file sample_world (Some ''nothing.toml'') self
     = (Inr False, [msg_not_found], self)"
  "could_load_file sample_world (Some ''broken.toml'') self
     = (Inr False, [msg_format_error], self)"
  by (simp_all add: could_load_file_def load_attempt_def with_exit_def print_return_False_def
      sample_world_def sample_text_def)

lemma sample_world_fails_before_store:
  "fails_before_store sample_world (Some ''nothing.toml'')"
  "fails_before_store sample_world (Some ''broken.toml'')"
  by (simp_all add: fails_before_store_def sample_world_def sample_text_def)

text \<open>
  C5, as the claim states it, fails where \<^verbatim>\<open>print\<close> raises: the diagnostic for a
  missing file path is printed outside the \<^verbatim>\<open>try\<close>, the other three inside
  \<^verbatim>\<open>except\<close> blocks, so with the standard output closed the ValueError of
  \<^verbatim>\<open>print\<close> leaves \<^verbatim>\<open>could_load_file\<close> and no boolean is returned.
\<close>

theorem load_raises_when_print_raises:
  "fst (could_load_file mute_world None MeloDConfig_init)
     = Inl (OtherException ''I/O operation on closed file.'')
   \<and> fst (could_load_file mute_world (Some ''nothing.toml'') MeloDConfig_init)
     = Inl (OtherException ''I/O operation on closed file.'')"
  by (simp add: could_load_file_def load_attempt_def print_return_False_def mute_world_def
      sample_world_def)

text \<open>
  C5, amended. Where printing the diagnostic does not raise, \<^verbatim>\<open>could_load_file\<close>
  returns a boolean and does not raise, and it returns False exactly when the file
  path is \<^verbatim>\<open>None\<close> or empty, or resolving the path, opening the file, parsing it
  or closing it raises, whatever the exception \<open>e\<close> is: a missing file, a format
  error or any other one. The kinds differ only in the line printed.
\<close>

theorem load_returns_boolean:
  assumes "\<forall>msg. print_line w msg = None"
  shows "(\<exists>b. fst (could_load_file w filepath self) = Inr b)
   \<and> (fst (could_load_file w filepath self) = Inr False) =
     (filepath = None \<or> filepath = Some [] \<or>
       (\<exists>fp e. filepath = Some fp \<and>
          (abspath w fp = Inl e \<or>
            (\<exists>full_path. abspath w fp = Inr full_path \<and>
               (open_rb w full_path = Inl e \<or>
                 (\<exists>config_file. open_rb w full_path = Inr config_file \<and>
                    (tomllib_load w config_file = Inl e \<or>
                     close_file w full_path = Some e)))))))"
    (is "?bool \<and> ?false = ?fails")
proof
  show b: ?bool using assms by (rule could_load_file_quiet)
  show "?false = ?fails"
  proof
    assume f: ?false
    show ?fails
    proof (cases "fails_before_store w filepath")
      case True
      then show ?thesis
        by (auto simp: fails_before_store_def split: option.splits sum.splits)
    next
      case False
      from not_fails_before_store [OF this]
      obtain fp full_path config_file parsed where
        s: "filepath = Some fp" "fp \<noteq> []" "abspath w fp = Inr full_path"
          "open_rb w full_path = Inr config_file" "tomllib_load w config_file = Inr parsed"
        by blast
      have "\<exists>e. close_file w full_path = Some e"
      proof (cases "close_file w full_path")
        case None
        from could_load_file_parsed(2) [OF s(2-5) None, of self] f s(1)
        show ?thesis by simp
      qed simp
      then obtain e where "close_file w full_path = Some e" ..
      with s show ?thesis by blast
    qed
  next
    assume ?fails
    then have "fst (could_load_file w filepath self) \<noteq> Inr True"
      using could_load_file_True [of w filepath self] by auto
    with b show ?false by (cases "fst (could_load_file w filepath self)") auto
  qed
qed

theorem load_returns_boolean_witness:
  "(\<forall>msg. print_line sample_world msg = None)
   \<and> fst (could_load_file sample_world (Some ''nothing.toml'') sample_store) = Inr False
   \<and> fst (could_load_file sample_world None sample_store) = Inr False"
proof -
  from load_returns_boolean [OF sample_world_quiet, of "Some ''nothing.toml''" sample_store]
    load_returns_boolean [OF sample_world_quiet, of None sample_store]
    sample_world_quiet
  show ?thesis
    by (simp add: sample_world_def)
qed

text \<open>
  C6, as the claim states it, fails where closing the file raises: the store is
  assigned inside the \<^verbatim>\<open>with\<close> block, the close runs after it and inside the
  \<^verbatim>\<open>try\<close>, so its exception is caught and False is returned with the parsed
  dict already in the store.
\<close>

theorem failed_close_replaces_store:
  "fst (could_load_file stuck_world (Some ''project.toml'') \<lparr>config_data = PyDict []\<rparr>)
     = Inr False
   \<and> snd (snd (could_load_file stuck_world (Some ''project.toml'') \<lparr>config_data = PyDict []\<rparr>))
     = \<lparr>config_data = PyDict sample_items\<rparr>
   \<and> \<lparr>config_data = PyDict sample_items\<rparr> \<noteq> \<lparr>config_data = PyDict []\<rparr>"
  by (simp add: could_load_file_def load_attempt_def with_exit_def print_return_False_def
      stuck_world_def sample_world_def sample_items_def)

text \<open>
  C6, amended. When \<^verbatim>\<open>could_load_file\<close> returns False because the file path is
  \<^verbatim>\<open>None\<close> or empty, or because resolving the path, opening the file or parsing
  it raised, the object after the call is the object before it: a loaded store is
  untouched, an unset one stays unset. The one other way to False is an exception
  of the close after a parse that returned. When the call returns True the store
  is the dict the parser returned, whatever it held before.
\<close>

theorem failed_load_keeps_store:
  "(fst (could_load_file w filepath self) = Inr False \<and> fails_before_store w filepath \<longrightarrow>
      snd (snd (could_load_file w filepath self)) = self)
   \<and> (fst (could_load_file w filepath self) = Inr False \<and> \<not> fails_before_store w filepath \<longrightarrow>
        (\<exists>fp full_path config_file parsed e.
           filepath = Some fp \<and> abspath w fp = Inr full_path \<and>
           open_rb w full_path = Inr config_file \<and> tomllib_load w config_file = Inr parsed \<and>
           close_file w full_path = Some e))
   \<and> (fst (could_load_file w filepath self) = Inr True \<longrightarrow>
        (\<exists>fp full_path config_file parsed.
           filepath = Some fp \<and> abspath w fp = Inr full_path \<and>
           open_rb w full_path = Inr config_file \<and> tomllib_load w config_file = Inr parsed \<and>
           snd (snd (could_load_file w filepath self)) = \<lparr>config_data = PyDict parsed\<rparr>))"
proof (intro conjI impI)
  assume "fst (could_load_file w filepath self) = Inr False \<and> fails_before_store w filepath"
  then show "snd (snd (could_load_file w filepath self)) = self"
    using could_load_file_fails_before_store [of w filepath self] by simp
next
  assume a: "fst (could_load_file w filepath self) = Inr False \<and> \<not> fails_before_store w filepath"
  then have "\<not> fails_before_store w filepath" by simp
  from not_fails_before_store [OF this]
  obtain fp full_path config_file parsed where
    s: "filepath = Some fp" "fp \<noteq> []" "abspath w fp = Inr full_path"
      "open_rb w full_path = Inr config_file" "tomllib_load w config_file = Inr parsed"
    by blast
  have "\<exists>e. close_file w full_path = Some e"
  proof (cases "close_file w full_path")
    case None
    from could_load_file_parsed(2) [OF s(2-5) None, of self] a s(1)
    show ?thesis by simp
  qed simp
  then obtain e where "close_file w full_path = Some e" ..
  with s show "\<exists>fp full_path config_file parsed e.
           filepath = Some fp \<and> abspath w fp = Inr full_path \<and>
           open_rb w full_path = Inr config_file \<and> tomllib_load w config_file = Inr parsed \<and>
           close_file w full_path = Some e"
    by blast
next
  assume "fst (could_load_file w filepath self) = Inr True"
  from could_load_file_True [OF this]
  show "\<exists>fp full_path config_file parsed.
           filepath = Some fp \<and> abspath w fp = Inr full_path \<and>
           open_rb w full_path = Inr config_file \<and> tomllib_load w config_file = Inr parsed \<and>
           snd (snd (could_load_file w filepath self)) = \<lparr>config_data = PyDict parsed\<rparr>"
    by auto
qed

theorem failed_load_keeps_store_witness:
  "fst (could_load_file sample_world (Some ''nothing.toml'') sample_store) = Inr False
   \<and> fails_before_store sample_world (Some ''nothing.toml'')
   \<and> snd (snd (could_load_file sample_world (Some ''nothing.toml'') sample_store))
       = sample_store
   \<and> fst (could_load_file sample_world (Some ''broken.toml'') MeloDConfig_init) = Inr False
   \<and> fails_before_store sample_world (Some ''broken.toml'')
   \<and> snd (snd (could_load_file sample_world (Some ''broken.toml'') MeloDConfig_init))
       = MeloDConfig_init
   \<and> fst (could_load_file sample_world (Some ''project.toml'') \<lparr>config_data = PyDict []\<rparr>)
       = Inr True
   \<and> snd (snd (could_load_file sample_world (Some ''project.toml'') \<lparr>config_data = PyDict []\<rparr>))
       = \<lparr>config_data = PyDict sample_items\<rparr>"
proof -
  have 1: "fst (could_load_file sample_world (Some ''nothing.toml'') sample_store) = Inr False"
    by (simp add: sample_world_fails)
  have 2: "fst (could_load_file sample_world (Some ''broken.toml'') MeloDConfig_init) = Inr False"
    by (simp add: sample_world_fails)
  have 3: "fst (could_load_file sample_world (Some ''project.toml'') \<lparr>config_data = PyDict []\<rparr>)
             = Inr True"
    by (simp add: sample_world_loads)
  from failed_load_keeps_store [of sample_world "Some ''nothing.toml''" sample_store]
    failed_load_keeps_store [of sample_world "Some ''broken.toml''" MeloDConfig_init]
    failed_load_keeps_store [of sample_world "Some ''project.toml''" "\<lparr>config_data = PyDict []\<rparr>"]
    1 2 3 sample_world_fails_before_store sample_world_project
  show ?thesis by auto
qed

section \<open>Reading after a load\<close>

lemma walk_two_segments:
  assumes "map_of parsed k1 = Some (PyDict inner)"
    and "map_of inner k2 = Some v" and "v \<noteq> PyNone"
  shows "walk (PyDict parsed) [k1, k2] data_path = Inr v"
  using assms by simp

lemma get_printer_dimensions_loaded:
  assumes "map_of parsed ''printer'' = Some (PyDict printer)"
    and "map_of printer ''x_dim'' = Some x" and "x \<noteq> PyNone"
    and "map_of printer ''y_dim'' = Some y" and "y \<noteq> PyNone"
    and "map_of printer ''z_dim'' = Some z" and "z \<noteq> PyNone"
  shows "get_printer_dimensions \<lparr>config_data = PyDict parsed\<rparr>
           = (Inr (x, y, z), \<lparr>config_data = PyDict parsed\<rparr>)"
proof -
  let ?s = "\<lparr>config_data = PyDict parsed\<rparr>"
  have x: "get_data_value ''printer/x_dim'' ''/'' ?s = (Inr x, ?s)"
    using walk_two_segments [OF assms(1) assms(2) assms(3)]
    by (simp only: get_data_value_def sample_split str_is_None_def str_eq_empty_list_def) simp
  have y: "get_data_value ''printer/y_dim'' ''/'' ?s = (Inr y, ?s)"
    using walk_two_segments [OF assms(1) assms(4) assms(5)]
    by (simp only: get_data_value_def sample_split str_is_None_def str_eq_empty_list_def) simp
  have z: "get_data_value ''printer/z_dim'' ''/'' ?s = (Inr z, ?s)"
    using walk_two_segments [OF assms(1) assms(6) assms(7)]
    by (simp only: get_data_value_def sample_split str_is_None_def str_eq_empty_list_def) simp
  show ?thesis
    by (simp add: get_printer_dimensions_def and_then_def returning_def x y z)
qed

text \<open>
  C7. Let the file at \<open>fp\<close> open, parse to a dict whose table \<^verbatim>\<open>printer\<close>
  defines \<^verbatim>\<open>x_dim\<close>, \<^verbatim>\<open>y_dim\<close> and \<^verbatim>\<open>z_dim\<close> as \<open>x\<close>, \<open>y\<close> and \<open>z\<close>
  (TOML has no null, so none of them is \<^verbatim>\<open>None\<close>), and close. Then the load
  returns True and \<^verbatim>\<open>get_printer_dimensions\<close> on the loaded object returns the
  tuple \<open>(x, y, z)\<close>.
\<close>

theorem printer_dimensions_after_load:
  assumes "fp \<noteq> []"
    and "abspath w fp = Inr full_path"
    and "open_rb w full_path = Inr config_file"
    and "tomllib_load w config_file = Inr parsed"
    and "close_file w full_path = None"
    and "map_of parsed ''printer'' = Some (PyDict printer)"
    and "map_of printer ''x_dim'' = Some x" and "x \<noteq> PyNone"
    and "map_of printer ''y_dim'' = Some y" and "y \<noteq> PyNone"
    and "map_of printer ''z_dim'' = Some z" and "z \<noteq> PyNone"
  shows "fst (could_load_file w (Some fp) self) = Inr True
         \<and> fst (get_printer_dimensions (snd (snd (could_load_file w (Some fp) self))))
             = Inr (x, y, z)"
proof -
  have "could_load_file w (Some fp) self = (Inr True, [], \<lparr>config_data = PyDict parsed\<rparr>)"
    using could_load_file_parsed(2) [OF assms(1-5), of self] by simp
  then show ?thesis
    using get_printer_dimensions_loaded [OF assms(6-12)] by simp
qed

theorem printer_dimensions_after_load_witness:
  "fst (could_load_file sample_world (Some ''project.toml'') MeloDConfig_init) = Inr True
   \<and> fst (get_printer_dimensions
            (snd (snd (could_load_file sample_world (Some ''project.toml'') MeloDConfig_init))))
       = Inr (PyFloat 0x4069000000000000, PyFloat 0x406A400000000000,
              PyFloat 0x4066800000000000)"
proof -
  have p: "map_of sample_items ''printer'' = Some (PyDict sample_printer)"
    by (simp add: sample_items_def)
  have x: "map_of sample_printer ''x_dim'' = Some (PyFloat 0x4069000000000000)"
    and y: "map_of sample_printer ''y_dim'' = Some (PyFloat 0x406A400000000000)"
    and z: "map_of sample_printer ''z_dim'' = Some (PyFloat 0x4066800000000000)"
    by (simp_all add: sample_printer_def)
  have d: "PyFloat f \<noteq> PyNone" for f
    by simp
  have n: "''project.toml'' \<noteq> []"
    by simp
  show ?thesis
    by (rule printer_dimensions_after_load [OF n sample_world_project p x d y d z d])
qed

lemma reload_same:
  assumes "fst (could_load_file w filepath self) = Inr True"
  shows "could_load_file w filepath (snd (snd (could_load_file w filepath self)))
           = could_load_file w filepath self"
proof -
  from could_load_file_True [OF assms]
  obtain fp full_path config_file parsed where
    fp: "filepath = Some fp" "fp \<noteq> []" and
    ok: "abspath w fp = Inr full_path" "open_rb w full_path = Inr config_file"
      "tomllib_load w config_file = Inr parsed" "close_file w full_path = None" and
    r: "could_load_file w filepath self = (Inr True, [], self\<lparr>config_data := PyDict parsed\<rparr>)"
    by blast
  have "could_load_file w (Some fp) (self\<lparr>config_data := PyDict parsed\<rparr>)
          = (Inr True, [], self\<lparr>config_data := PyDict parsed\<rparr>)"
    using could_load_file_parsed(2) [OF fp(2) ok, of "self\<lparr>config_data := PyDict parsed\<rparr>"]
    by simp
  with r fp(1) show ?thesis by simp
qed

text \<open>
  C8. In one world (the file is not changed between the calls), let a load succeed
  and call the object after it \<open>once\<close>. The same load on \<open>once\<close> succeeds again
  and gives an object \<open>twice\<close> equal to \<open>once\<close>, so the resolver, for every path
  and separator, and each accessor give on \<open>twice\<close> what they give on \<open>once\<close>.
\<close>

theorem load_twice_same_reads:
  assumes "fst (could_load_file w filepath self) = Inr True"
  shows "(let once = snd (snd (could_load_file w filepath self));
              twice = snd (snd (could_load_file w filepath once))
          in fst (could_load_file w filepath once) = Inr True
           \<and> twice = once
           \<and> get_data_value data_path sep twice = get_data_value data_path sep once
           \<and> get_printer_angles_per_step twice = get_printer_angles_per_step once
           \<and> get_printer_rot_distance_per_rev twice = get_printer_rot_distance_per_rev once
           \<and> get_printer_dimensions twice = get_printer_dimensions once
           \<and> get_song_config_path twice = get_song_config_path once
           \<and> get_song_properties twice = get_song_properties once
           \<and> get_song_tempo twice = get_song_tempo once
           \<and> get_song_octaves_adjustment twice = get_song_octaves_adjustment once)"
  using assms reload_same [OF assms] by (simp add: Let_def)

theorem load_twice_same_reads_witness:
  "fst (could_load_file sample_world (Some ''project.toml'') MeloDConfig_init) = Inr True
   \<and> snd (snd (could_load_file sample_world (Some ''project.toml'')
         (snd (snd (could_load_file sample_world (Some ''project.toml'') MeloDConfig_init)))))
       = sample_store
   \<and> get_printer_dimensions (snd (snd (could_load_file sample_world (Some ''project.toml'')
         (snd (snd (could_load_file sample_world (Some ''project.toml'') MeloDConfig_init))))))
       = get_printer_dimensions sample_store"
proof -
  have "fst (could_load_file sample_world (Some ''project.toml'') MeloDConfig_init) = Inr True"
    by (simp add: sample_world_loads)
  from load_twice_same_reads [OF this] show ?thesis
    by (simp add: Let_def sample_world_loads)
qed

end
